theory Spec2Isabelle
  imports Main
begin

section \<open>The MQTT publisher of elro\_connects (src/elro/mqtt.py)\<close>

text \<open>
  The class \<open>MQTTPublisher\<close> forwards the alarm and update events of the devices of a hub
  to an MQTT broker. A Python \<open>str\<close> is a \<open>string\<close> (a list of 8-bit characters, read
  as the code points 0 to 255), a \<open>bytes\<close> object is a list of 8-bit characters read as
  octets.
\<close>

subsection \<open>Data\<close>

type_synonym bytes = "char list"

text \<open>
  The fields of a device that the publisher reads: \<open>device.id\<close> (named \<open>ident\<close> here,
  \<open>id\<close> being the identity function of HOL), \<open>device.name\<close> and \<open>device.json\<close>.
  The conditions \<open>device.alarm\<close> and \<open>device.updated\<close> belong to the hub; the return
  of a wait on one of them is an event of the schedule below.
\<close>

record device =
  ident :: string
  name :: string
  json :: string

record MQTTPublisher =
  broker_host :: string
  base_topic :: string

text \<open>
  A watcher task holds a reference to the device object it was started with: the
  objects live in a store indexed by references, so that a change the hub makes to a
  device is seen by the tasks that hold it.
\<close>

type_synonym ref = nat

datatype task = UpdateTask ref | AlarmTask ref

text \<open>
  \<open>ValidationError\<close>: the decorator of the constructor rejects an argument.
  \<open>ConnectError\<close>: \<open>open_mqttclient\<close> fails. \<open>KeyError\<close>: \<open>hub.devices[device_id]\<close>
  on an identity the registry does not hold. \<open>NotSpawned\<close> is no error of the program:
  it marks a schedule that wakes a task the nursery does not hold.
\<close>

datatype error =
  ValidationError
  | ConnectError
  | KeyError string
  | NotSpawned task

subsection \<open>The constructor\<close>

definition startswith :: "string \<Rightarrow> string \<Rightarrow> bool" where
  "startswith s pre = (take (length pre) s = pre)"

text \<open>
  The character class \<open>[/_\-a-zA-Z0-9]\<close> of the pattern of \<open>base_topic\<close>.
\<close>

definition base_topic_char :: "char \<Rightarrow> bool" where
  "base_topic_char c =
     (let n = (of_char c :: nat)
      in c = CHR ''/'' \<or> c = CHR ''_'' \<or> c = CHR ''-''
         \<or> (97 \<le> n \<and> n \<le> 122) \<or> (65 \<le> n \<and> n \<le> 90) \<or> (48 \<le> n \<and> n \<le> 57))"

text \<open>
  \<open>Pattern("^[/_\\-a-zA-Z0-9]*$")\<close> on the value of \<open>base_topic\<close>. A pattern accepts
  strings only, so \<open>None\<close>, the default of the omitted argument, is rejected. A string is
  matched from its start; \<open>$\<close> of Python matches at the end of the string and before a
  newline that ends it.
\<close>

definition base_topic_pattern :: "string option \<Rightarrow> bool" where
  "base_topic_pattern v =
     (case v of
        None \<Rightarrow> False
      | Some s \<Rightarrow>
          list_all base_topic_char s
          \<or> (s \<noteq> [] \<and> last s = CHR 0x0A \<and> list_all base_topic_char (butlast s)))"

text \<open>
  The decorator \<open>@accepts\<close> checks both arguments before the body runs and raises when
  one of them fails. The patterns \<open>ip_address\<close> and \<open>hostname\<close> of the broker host come
  from the module \<open>elro.validation\<close>: the check of the host
  is the parameter \<open>host_pattern\<close>. The argument \<open>base_topic\<close> is \<open>None\<close> when the
  call omits it.
\<close>

definition accepts :: "(string \<Rightarrow> bool) \<Rightarrow> string \<Rightarrow> string option \<Rightarrow> bool" where
  "accepts host_pattern host base = (host_pattern host \<and> base_topic_pattern base)"

definition MQTTPublisher_init ::
  "(string \<Rightarrow> bool) \<Rightarrow> string \<Rightarrow> string option \<Rightarrow> error + MQTTPublisher" where
  "MQTTPublisher_init host_pattern host base =
     (if \<not> accepts host_pattern host base then Inl ValidationError
      else Inr \<lparr>broker_host = (if \<not> startswith host ''mqtt://'' then ''mqtt://'' @ host else host),
                base_topic = (case base of None \<Rightarrow> '''' | Some b \<Rightarrow> b)\<rparr>)"

subsection \<open>Topics\<close>

definition topic :: "MQTTPublisher \<Rightarrow> string \<Rightarrow> string" where
  "topic self last_hierarchy = base_topic self @ ''/elro/'' @ last_hierarchy"

definition topic_name :: "MQTTPublisher \<Rightarrow> device \<Rightarrow> string" where
  "topic_name self d =
     (let last_hierarchy = (if name d = '''' then ident d else name d)
      in topic self last_hierarchy)"


subsection \<open>The broker client\<close>

text \<open>
  Modelled from the spec: the constant \<open>QOS_1\<close> that the source imports from
  \<open>distmqtt.mqtt.constants\<close> is not part of src; the spec calls it at-least-once
  quality-of-service, level 1 of MQTT, which the last will writes as the literal \<open>0x01\<close>.
\<close>

definition QOS_1 :: nat where
  "QOS_1 = 1"

text \<open>
  A call \<open>client.publish(topic, message, qos, retain=...)\<close>; \<open>retain\<close> is \<open>None\<close> when
  the call does not pass it. The client is the library's: the model records the calls
  the publisher hands to it, in order.
\<close>

datatype publication =
  Publish (on_topic: string) (message: bytes) (qos: nat) (retain: "bool option")

record will =
  will_topic :: string
  will_message :: bytes
  will_qos :: nat
  will_retain :: bool

record config =
  uri :: string
  will :: will

text \<open>
  \<open>str.encode('utf-8')\<close> on the code points 0 to 255: one octet below 128, two octets
  from 128 on.
\<close>

definition encode_utf8_char :: "char \<Rightarrow> bytes" where
  "encode_utf8_char c =
     (let n = (of_char c :: nat)
      in if n < 128 then [c] else [char_of (192 + n div 64), char_of (128 + n mod 64)])"

definition encode_utf8 :: "string \<Rightarrow> bytes" where
  "encode_utf8 s = concat (map encode_utf8_char s)"

subsection \<open>The state the tasks run in\<close>

text \<open>
  \<open>heap\<close>: the device objects of the hub. \<open>devices\<close>: the registry \<open>hub.devices\<close>, from
  identities to device objects. \<open>session\<close>: the configuration the open connection was
  made with. \<open>nursery\<close>: the tasks started in the nursery, in the order of
  \<open>start_soon\<close>. \<open>published\<close>: the calls of \<open>client.publish\<close>, in order.
\<close>

record world =
  heap :: "ref \<Rightarrow> device"
  devices :: "string \<rightharpoonup> ref"
  session :: "config option"
  nursery :: "task list"
  published :: "publication list"

definition publish :: "string \<Rightarrow> bytes \<Rightarrow> nat \<Rightarrow> bool option \<Rightarrow> world \<Rightarrow> world" where
  "publish t m q r w = w\<lparr>published := published w @ [Publish t m q r]\<rparr>"

definition start_soon :: "task \<Rightarrow> world \<Rightarrow> world" where
  "start_soon t w = w\<lparr>nursery := nursery w @ [t]\<rparr>"

subsection \<open>The watcher tasks\<close>

text \<open>
  One pass of \<open>handle_device_alarm\<close> from the moment \<open>device.alarm.wait()\<close> returns:
  no other task runs between the return of the wait and the call of \<open>publish\<close>, so the
  pass is one step on the state. The device is read through its reference at that moment.
\<close>

definition handle_device_alarm :: "MQTTPublisher \<Rightarrow> ref \<Rightarrow> world \<Rightarrow> world" where
  "handle_device_alarm self d w =
     (let t = topic_name self (heap w d)
      in publish t ''alarm'' QOS_1 None w)"

definition handle_device_update :: "MQTTPublisher \<Rightarrow> ref \<Rightarrow> world \<Rightarrow> world" where
  "handle_device_update self d w =
     (let t = topic_name self (heap w d)
      in publish t (encode_utf8 (json (heap w d))) QOS_1 None w)"

text \<open>
  The loops \<open>while True\<close> of the two tasks never return; each pass blocks in the wait
  until the condition fires. The number of firings the task consumes is the fuel: after
  \<open>n\<close> firings, with nothing else running in between, the task has made \<open>n\<close> passes
  and is blocked in the next wait.
\<close>

fun device_alarm_task :: "MQTTPublisher \<Rightarrow> ref \<Rightarrow> nat \<Rightarrow> world \<Rightarrow> world" where
  "device_alarm_task self d 0 w = w"
| "device_alarm_task self d (Suc n) w = device_alarm_task self d n (handle_device_alarm self d w)"

fun device_update_task :: "MQTTPublisher \<Rightarrow> ref \<Rightarrow> nat \<Rightarrow> world \<Rightarrow> world" where
  "device_update_task self d 0 w = w"
| "device_update_task self d (Suc n) w = device_update_task self d n (handle_device_update self d w)"

subsection \<open>Schedules\<close>

text \<open>
  What happens while the nursery is open, one event at a time:
  \<open>NewDevice i\<close>: the channel \<open>hub.new_device_receive_ch\<close> yields the identity \<open>i\<close> and
  the discovery loop runs its body;
  \<open>Wake t\<close>: the wait of the task \<open>t\<close> returns and \<open>t\<close> makes one pass of its loop;
  \<open>HubRegister i r\<close>: the hub stores the device object \<open>r\<close> under \<open>i\<close> in its registry;
  \<open>HubWrite r d\<close>: the hub changes the fields of the device object \<open>r\<close> to \<open>d\<close>.
\<close>

datatype event =
  NewDevice string
  | Wake task
  | HubRegister string ref
  | HubWrite ref device

fun is_wake :: "event \<Rightarrow> bool" where
  "is_wake (Wake t) = True"
| "is_wake e = False"

fun step :: "MQTTPublisher \<Rightarrow> event \<Rightarrow> world \<Rightarrow> error + world" where
  "step self (NewDevice device_id) w =
     (case devices w device_id of
        None \<Rightarrow> Inl (KeyError device_id)
      | Some d \<Rightarrow> Inr (start_soon (AlarmTask d) (start_soon (UpdateTask d) w)))"
| "step self (Wake t) w =
     (if t \<notin> set (nursery w) then Inl (NotSpawned t)
      else (case t of
              AlarmTask d \<Rightarrow> Inr (handle_device_alarm self d w)
            | UpdateTask d \<Rightarrow> Inr (handle_device_update self d w)))"
| "step self (HubRegister device_id r) w = Inr (w\<lparr>devices := (devices w)(device_id \<mapsto> r)\<rparr>)"
| "step self (HubWrite r d) w = Inr (w\<lparr>heap := (heap w)(r := d)\<rparr>)"

fun run :: "MQTTPublisher \<Rightarrow> event list \<Rightarrow> world \<Rightarrow> error + world" where
  "run self [] w = Inr w"
| "run self (e # es) w = (case step self e w of Inl err \<Rightarrow> Inl err | Inr w' \<Rightarrow> run self es w')"

subsection \<open>The connection and the discovery loop\<close>

text \<open>
  \<open>open_mqttclient\<close> is the library's: the parameter says for which configurations the
  connection is made. The nursery is new and holds no task when the loop starts; the
  schedule is what happens while it is open.
\<close>

definition handle_hub_events ::
  "MQTTPublisher \<Rightarrow> (config \<Rightarrow> bool) \<Rightarrow> event list \<Rightarrow> world \<Rightarrow> error + world" where
  "handle_hub_events self open_mqttclient schedule w =
     (let cfg = \<lparr>uri = broker_host self,
                 will = \<lparr>will_topic = topic self ''status'',
                         will_message = ''offline'',
                         will_qos = 1,
                         will_retain = True\<rparr>\<rparr>
      in if \<not> open_mqttclient cfg then Inl ConnectError
         else run self schedule
                (publish (topic self ''status'') ''online'' QOS_1 (Some True)
                   (w\<lparr>session := Some cfg, nursery := []\<rparr>)))"

section \<open>Lemmas on the state\<close>

lemma publish_simps [simp]:
  "published (publish t m q r w) = published w @ [Publish t m q r]"
  "nursery (publish t m q r w) = nursery w"
  "heap (publish t m q r w) = heap w"
  "devices (publish t m q r w) = devices w"
  "session (publish t m q r w) = session w"
  by (simp_all add: publish_def)

lemma start_soon_simps [simp]:
  "published (start_soon t w) = published w"
  "nursery (start_soon t w) = nursery w @ [t]"
  "heap (start_soon t w) = heap w"
  "devices (start_soon t w) = devices w"
  "session (start_soon t w) = session w"
  by (simp_all add: start_soon_def)

text \<open>A step only appends to the calls of \<open>publish\<close>: one call for a task that wakes, none otherwise.\<close>

lemma step_published:
  assumes "step self e w = Inr w'"
  shows "published w' = published w @ drop (length (published w)) (published w')
       \<and> length (published w') = length (published w) + (if is_wake e then 1 else 0)"
  using assms
  by (cases e) (auto simp: handle_device_alarm_def handle_device_update_def
      split: option.splits if_splits task.splits)

lemma step_session:
  assumes "step self e w = Inr w'"
  shows "session w' = session w"
  using assms
  by (cases e) (auto simp: handle_device_alarm_def handle_device_update_def
      split: option.splits if_splits task.splits)

lemma run_session:
  "run self es w = Inr w' \<Longrightarrow> session w' = session w"
proof (induction es arbitrary: w)
  case Nil
  then show ?case by simp
next
  case (Cons e es)
  then obtain w1 where s: "step self e w = Inr w1" and r: "run self es w1 = Inr w'"
    by (auto split: sum.splits)
  from Cons.IH [OF r] step_session [OF s] show ?case by simp
qed

lemma run_published:
  "run self es w = Inr w' \<Longrightarrow>
     \<exists>rest. published w' = published w @ rest \<and> length rest = length (filter is_wake es)"
proof (induction es arbitrary: w)
  case Nil
  then show ?case by simp
next
  case (Cons e es)
  then obtain w1 where s: "step self e w = Inr w1" and r: "run self es w1 = Inr w'"
    by (auto split: sum.splits)
  from Cons.IH [OF r] obtain rest where
    rest: "published w' = published w1 @ rest" "length rest = length (filter is_wake es)"
    by blast
  from step_published [OF s] have
    p1: "published w1 = published w @ drop (length (published w)) (published w1)"
    and l1: "length (published w1) = length (published w) + (if is_wake e then 1 else 0)"
    by simp_all
  let ?r = "drop (length (published w)) (published w1) @ rest"
  have "published w' = published w @ ?r" using rest(1) p1 by (metis append.assoc)
  moreover have "length ?r = length (filter is_wake (e # es))" using rest(2) l1 by simp
  ultimately show ?case by blast
qed

lemma step_not_connect: "step self e w \<noteq> Inl ConnectError"
  by (cases e) (auto split: option.splits task.splits)

lemma run_not_connect: "run self es w \<noteq> Inl ConnectError"
  by (induction es arbitrary: w) (auto split: sum.splits simp: step_not_connect)

lemma step_new_device:
  "devices w i = Some d \<Longrightarrow>
     step self (NewDevice i) w = Inr (w\<lparr>nursery := nursery w @ [UpdateTask d, AlarmTask d]\<rparr>)"
  by (simp add: start_soon_def)

lemma step_unknown_device:
  "devices w i = None \<Longrightarrow> step self (NewDevice i) w = Inl (KeyError i)"
  by simp

text \<open>The loops of the two tasks, by the number of firings consumed.\<close>

lemma device_alarm_task_eq:
  "device_alarm_task self d n w =
     w\<lparr>published := published w @ replicate n (Publish (topic_name self (heap w d)) ''alarm'' QOS_1 None)\<rparr>"
proof (induction n arbitrary: w)
  case 0
  then show ?case by simp
next
  case (Suc n)
  show ?case
    by (simp add: Suc.IH handle_device_alarm_def publish_def)
qed

lemma run_replicate_alarm:
  "AlarmTask d \<in> set (nursery w) \<Longrightarrow>
     run self (replicate n (Wake (AlarmTask d))) w = Inr (device_alarm_task self d n w)"
proof (induction n arbitrary: w)
  case 0
  then show ?case by simp
next
  case (Suc n)
  from Suc.prems have "AlarmTask d \<in> set (nursery (handle_device_alarm self d w))"
    by (simp add: handle_device_alarm_def)
  from Suc.IH [OF this] Suc.prems show ?case by simp
qed

lemma device_update_task_eq:
  "device_update_task self d n w =
     w\<lparr>published := published w @
        replicate n (Publish (topic_name self (heap w d)) (encode_utf8 (json (heap w d))) QOS_1 None)\<rparr>"
proof (induction n arbitrary: w)
  case 0
  then show ?case by simp
next
  case (Suc n)
  show ?case
    by (simp add: Suc.IH handle_device_update_def publish_def)
qed

lemma run_replicate_update:
  "UpdateTask d \<in> set (nursery w) \<Longrightarrow>
     run self (replicate n (Wake (UpdateTask d))) w = Inr (device_update_task self d n w)"
proof (induction n arbitrary: w)
  case 0
  then show ?case by simp
next
  case (Suc n)
  from Suc.prems have "UpdateTask d \<in> set (nursery (handle_device_update self d w))"
    by (simp add: handle_device_update_def)
  from Suc.IH [OF this] Suc.prems show ?case by simp
qed

text \<open>
  Any order of wake-ups of tasks the nursery holds: every wake-up publishes once, to the
  topic of the device the task holds.
\<close>

lemma run_wakes:
  "set ts \<subseteq> set (nursery w) \<Longrightarrow>
     run self (map Wake ts) w =
       Inr (w\<lparr>published := published w @
              map (\<lambda>t. case t of
                          UpdateTask d \<Rightarrow>
                            Publish (topic_name self (heap w d)) (encode_utf8 (json (heap w d))) QOS_1 None
                        | AlarmTask d \<Rightarrow> Publish (topic_name self (heap w d)) ''alarm'' QOS_1 None) ts\<rparr>)"
proof (induction ts arbitrary: w)
  case Nil
  then show ?case by simp
next
  case (Cons t ts)
  show ?case
  proof (cases t)
    case (UpdateTask d)
    let ?w1 = "handle_device_update self d w"
    from Cons.prems have "set ts \<subseteq> set (nursery ?w1)" by (simp add: handle_device_update_def)
    from Cons.IH [OF this] Cons.prems UpdateTask show ?thesis
      by (simp add: handle_device_update_def publish_def)
  next
    case (AlarmTask d)
    let ?w1 = "handle_device_alarm self d w"
    from Cons.prems have "set ts \<subseteq> set (nursery ?w1)" by (simp add: handle_device_alarm_def)
    from Cons.IH [OF this] Cons.prems AlarmTask show ?thesis
      by (simp add: handle_device_alarm_def publish_def)
  qed
qed

lemma topic_inject: "(topic self s = topic self t) = (s = t)"
  by (simp add: topic_def)

lemma topic_name_eq_iff:
  "(topic_name self a = topic_name self b) =
     ((if name a = '''' then ident a else name a) = (if name b = '''' then ident b else name b))"
  by (simp only: topic_name_def Let_def topic_inject)

text \<open>One run, evaluated: a connection, one device discovered, its alarm and its update.\<close>

lemma example_run:
  "handle_hub_events \<lparr>broker_host = ''mqtt://broker'', base_topic = ''home''\<rparr> (\<lambda>c. uri c = ''mqtt://broker'')
        [NewDevice ''42'', Wake (AlarmTask 0), Wake (UpdateTask 0)]
        \<lparr>heap = (\<lambda>r. \<lparr>ident = ''42'', name = ''Kitchen'', json = ''{}''\<rparr>),
         devices = [''42'' \<mapsto> 0], session = None, nursery = [], published = []\<rparr>
      = Inr \<lparr>heap = (\<lambda>r. \<lparr>ident = ''42'', name = ''Kitchen'', json = ''{}''\<rparr>),
         devices = [''42'' \<mapsto> 0],
         session = Some \<lparr>uri = ''mqtt://broker'',
                     will = \<lparr>will_topic = ''home/elro/status'', will_message = ''offline'',
                             will_qos = 1, will_retain = True\<rparr>\<rparr>,
         nursery = [UpdateTask 0, AlarmTask 0],
         published = [Publish ''home/elro/status'' ''online'' 1 (Some True),
                      Publish ''home/elro/Kitchen'' ''alarm'' 1 None,
                      Publish ''home/elro/Kitchen'' ''{}'' 1 None]\<rparr>"
proof -
  have e: "encode_utf8 ''{}'' = ''{}''" by code_simp
  show ?thesis
    by (simp add: handle_hub_events_def handle_device_update_def handle_device_alarm_def
        publish_def start_soon_def topic_name_def topic_def QOS_1_def e)
qed

section \<open>Properties\<close>

subsection \<open>The alarm task\<close>

text \<open>
  C1: for every device, each firing of the alarm condition that the wait of the alarm task
  consumes gives exactly one call of \<open>publish\<close>, with the payload \<open>alarm\<close>, at
  at-least-once quality-of-service, to the topic that the device has at that moment; \<open>n\<close>
  firings in sequence, each consumed before the next, give exactly \<open>n\<close> such calls. The
  first conjunct is one wake-up in any state, the second \<open>n\<close> wake-ups in a row under the
  scheduler, the third the loop of the task itself after \<open>n\<close> firings.
\<close>

theorem alarm_publishes:
  assumes "AlarmTask d \<in> set (nursery w)"
  shows "step self (Wake (AlarmTask d)) w =
           Inr (w\<lparr>published := published w @ [Publish (topic_name self (heap w d)) ''alarm'' QOS_1 None]\<rparr>)
       \<and> run self (replicate n (Wake (AlarmTask d))) w =
           Inr (w\<lparr>published := published w @
                  replicate n (Publish (topic_name self (heap w d)) ''alarm'' QOS_1 None)\<rparr>)
       \<and> device_alarm_task self d n w =
           w\<lparr>published := published w @
                  replicate n (Publish (topic_name self (heap w d)) ''alarm'' QOS_1 None)\<rparr>"
proof -
  have "step self (Wake (AlarmTask d)) w = Inr (handle_device_alarm self d w)"
    using assms by simp
  then have one: "step self (Wake (AlarmTask d)) w =
      Inr (w\<lparr>published := published w @ [Publish (topic_name self (heap w d)) ''alarm'' QOS_1 None]\<rparr>)"
    by (simp add: handle_device_alarm_def publish_def)
  from run_replicate_alarm [OF assms] device_alarm_task_eq one show ?thesis by simp
qed

theorem alarm_publishes_witness:
  "AlarmTask 0 \<in> set [UpdateTask 0, AlarmTask 0]
   \<and> run \<lparr>broker_host = ''mqtt://broker'', base_topic = ''home''\<rparr>
        (replicate 3 (Wake (AlarmTask 0)))
        \<lparr>heap = (\<lambda>r. \<lparr>ident = ''42'', name = ''Kitchen'', json = ''{}''\<rparr>),
         devices = [''42'' \<mapsto> 0], session = None,
         nursery = [UpdateTask 0, AlarmTask 0], published = []\<rparr>
      = Inr \<lparr>heap = (\<lambda>r. \<lparr>ident = ''42'', name = ''Kitchen'', json = ''{}''\<rparr>),
         devices = [''42'' \<mapsto> 0], session = None,
         nursery = [UpdateTask 0, AlarmTask 0],
         published = [Publish ''home/elro/Kitchen'' ''alarm'' 1 None,
                      Publish ''home/elro/Kitchen'' ''alarm'' 1 None,
                      Publish ''home/elro/Kitchen'' ''alarm'' 1 None]\<rparr>"
proof -
  let ?p = "\<lparr>broker_host = ''mqtt://broker'', base_topic = ''home''\<rparr>"
  let ?w = "\<lparr>heap = (\<lambda>r. \<lparr>ident = ''42'', name = ''Kitchen'', json = ''{}''\<rparr>),
         devices = [''42'' \<mapsto> 0], session = None,
         nursery = [UpdateTask 0, AlarmTask 0], published = []\<rparr>"
  have h: "AlarmTask 0 \<in> set (nursery ?w)" by simp
  have "run ?p (replicate 3 (Wake (AlarmTask 0))) ?w =
      Inr (?w\<lparr>published := published ?w @
          replicate 3 (Publish (topic_name ?p (heap ?w 0)) ''alarm'' QOS_1 None)\<rparr>)"
    using alarm_publishes [OF h] by blast
  also have "\<dots> = Inr \<lparr>heap = (\<lambda>r. \<lparr>ident = ''42'', name = ''Kitchen'', json = ''{}''\<rparr>),
         devices = [''42'' \<mapsto> 0], session = None,
         nursery = [UpdateTask 0, AlarmTask 0],
         published = [Publish ''home/elro/Kitchen'' ''alarm'' 1 None,
                      Publish ''home/elro/Kitchen'' ''alarm'' 1 None,
                      Publish ''home/elro/Kitchen'' ''alarm'' 1 None]\<rparr>"
    by (simp add: topic_name_def topic_def QOS_1_def numeral_3_eq_3)
  finally show ?thesis by simp
qed

subsection \<open>The connection\<close>

text \<open>
  C2: on every successful connection, \<open>online\<close> is published to \<open>topic('status')\<close> at
  at-least-once quality-of-service with \<open>retain = True\<close> before the discovery loop runs:
  the whole schedule (every pass of the discovery loop, every wake-up of a watcher task)
  runs from a state whose nursery is empty and in which that call is already made. So when
  the run returns, the call stands before every call made by a watcher task, one for each
  wake-up of the schedule.
\<close>

theorem online_first:
  assumes "open_mqttclient \<lparr>uri = broker_host self,
              will = \<lparr>will_topic = topic self ''status'', will_message = ''offline'',
                      will_qos = 1, will_retain = True\<rparr>\<rparr>"
  shows "handle_hub_events self open_mqttclient schedule w =
           run self schedule
             (w\<lparr>session := Some \<lparr>uri = broker_host self,
                    will = \<lparr>will_topic = topic self ''status'', will_message = ''offline'',
                            will_qos = 1, will_retain = True\<rparr>\<rparr>,
                 nursery := [],
                 published := published w @ [Publish (topic self ''status'') ''online'' QOS_1 (Some True)]\<rparr>)
       \<and> (handle_hub_events self open_mqttclient schedule w = Inr w' \<longrightarrow>
            (\<exists>rest. published w' =
               published w @ Publish (topic self ''status'') ''online'' QOS_1 (Some True) # rest
               \<and> length rest = length (filter is_wake schedule)))"
proof -
  let ?w0 = "publish (topic self ''status'') ''online'' QOS_1 (Some True)
      (w\<lparr>session := Some \<lparr>uri = broker_host self,
                    will = \<lparr>will_topic = topic self ''status'', will_message = ''offline'',
                            will_qos = 1, will_retain = True\<rparr>\<rparr>, nursery := []\<rparr>)"
  from assms have r: "handle_hub_events self open_mqttclient schedule w = run self schedule ?w0"
    by (simp add: handle_hub_events_def Let_def)
  have after: "\<exists>rest. published w' =
             published w @ Publish (topic self ''status'') ''online'' QOS_1 (Some True) # rest
             \<and> length rest = length (filter is_wake schedule)"
    if "handle_hub_events self open_mqttclient schedule w = Inr w'"
  proof -
    from that r have "run self schedule ?w0 = Inr w'" by simp
    from run_published [OF this] obtain rest where
      "published w' = published ?w0 @ rest" "length rest = length (filter is_wake schedule)"
      by blast
    then show ?thesis by simp
  qed
  from r have "handle_hub_events self open_mqttclient schedule w =
           run self schedule
             (w\<lparr>session := Some \<lparr>uri = broker_host self,
                    will = \<lparr>will_topic = topic self ''status'', will_message = ''offline'',
                            will_qos = 1, will_retain = True\<rparr>\<rparr>,
                 nursery := [],
                 published := published w @ [Publish (topic self ''status'') ''online'' QOS_1 (Some True)]\<rparr>)"
    by (simp add: publish_def)
  with after show ?thesis by blast
qed

theorem online_first_witness:
  "(\<lambda>c. uri c = ''mqtt://broker'') \<lparr>uri = broker_host \<lparr>broker_host = ''mqtt://broker'', base_topic = ''home''\<rparr>,
       will = \<lparr>will_topic = topic \<lparr>broker_host = ''mqtt://broker'', base_topic = ''home''\<rparr> ''status'',
               will_message = ''offline'', will_qos = 1, will_retain = True\<rparr>\<rparr>
   \<and> handle_hub_events \<lparr>broker_host = ''mqtt://broker'', base_topic = ''home''\<rparr> (\<lambda>c. uri c = ''mqtt://broker'')
        [NewDevice ''42'', Wake (AlarmTask 0), Wake (UpdateTask 0)]
        \<lparr>heap = (\<lambda>r. \<lparr>ident = ''42'', name = ''Kitchen'', json = ''{}''\<rparr>),
         devices = [''42'' \<mapsto> 0], session = None, nursery = [], published = []\<rparr>
      = Inr \<lparr>heap = (\<lambda>r. \<lparr>ident = ''42'', name = ''Kitchen'', json = ''{}''\<rparr>),
         devices = [''42'' \<mapsto> 0],
         session = Some \<lparr>uri = ''mqtt://broker'',
                     will = \<lparr>will_topic = ''home/elro/status'', will_message = ''offline'',
                             will_qos = 1, will_retain = True\<rparr>\<rparr>,
         nursery = [UpdateTask 0, AlarmTask 0],
         published = [Publish ''home/elro/status'' ''online'' 1 (Some True),
                      Publish ''home/elro/Kitchen'' ''alarm'' 1 None,
                      Publish ''home/elro/Kitchen'' ''{}'' 1 None]\<rparr>
   \<and> (\<exists>rest. [Publish ''home/elro/status'' ''online'' 1 (Some True),
                Publish ''home/elro/Kitchen'' ''alarm'' 1 None,
                Publish ''home/elro/Kitchen'' ''{}'' 1 None]
          = Publish ''home/elro/status'' ''online'' 1 (Some True) # rest
        \<and> length rest = 2)"
proof -
  let ?p = "\<lparr>broker_host = ''mqtt://broker'', base_topic = ''home''\<rparr>"
  let ?w = "\<lparr>heap = (\<lambda>r. \<lparr>ident = ''42'', name = ''Kitchen'', json = ''{}''\<rparr>),
         devices = [''42'' \<mapsto> 0], session = None, nursery = [], published = []\<rparr>"
  let ?w' = "\<lparr>heap = (\<lambda>r. \<lparr>ident = ''42'', name = ''Kitchen'', json = ''{}''\<rparr>),
         devices = [''42'' \<mapsto> 0],
         session = Some \<lparr>uri = ''mqtt://broker'',
                     will = \<lparr>will_topic = ''home/elro/status'', will_message = ''offline'',
                             will_qos = 1, will_retain = True\<rparr>\<rparr>,
         nursery = [UpdateTask 0, AlarmTask 0],
         published = [Publish ''home/elro/status'' ''online'' 1 (Some True),
                      Publish ''home/elro/Kitchen'' ''alarm'' 1 None,
                      Publish ''home/elro/Kitchen'' ''{}'' 1 None]\<rparr>"
  have c: "(\<lambda>c. uri c = ''mqtt://broker'') \<lparr>uri = broker_host ?p,
       will = \<lparr>will_topic = topic ?p ''status'',
               will_message = ''offline'', will_qos = 1, will_retain = True\<rparr>\<rparr>"
    by simp
  note h = example_run
  from online_first [where open_mqttclient = "\<lambda>c. uri c = ''mqtt://broker''" and self = ?p
      and schedule = "[NewDevice ''42'', Wake (AlarmTask 0), Wake (UpdateTask 0)]"
      and w = ?w and w' = ?w'] c h
  have "\<exists>rest. published ?w' =
      published ?w @ Publish (topic ?p ''status'') ''online'' QOS_1 (Some True) # rest
      \<and> length rest = length (filter is_wake [NewDevice ''42'', Wake (AlarmTask 0), Wake (UpdateTask 0)])"
    by blast
  then have "\<exists>rest. [Publish ''home/elro/status'' ''online'' 1 (Some True),
                Publish ''home/elro/Kitchen'' ''alarm'' 1 None,
                Publish ''home/elro/Kitchen'' ''{}'' 1 None]
          = Publish ''home/elro/status'' ''online'' 1 (Some True) # rest
        \<and> length rest = 2"
    by (simp add: topic_def QOS_1_def)
  with c h show ?thesis by blast
qed

subsection \<open>Topics\<close>

text \<open>
  C3: for every device, \<open>topic_name\<close> returns \<open>topic(device.name)\<close> when the name is not
  empty and \<open>topic(device.id)\<close> when it is; with the base \<open>home\<close>, the name empty and the id
  \<open>42\<close> it returns \<open>home/elro/42\<close>, and with the name \<open>Kitchen\<close> it returns
  \<open>home/elro/Kitchen\<close>.
\<close>

theorem topic_name_cases:
  "(name d \<noteq> '''' \<longrightarrow> topic_name self d = topic self (name d))
   \<and> (name d = '''' \<longrightarrow> topic_name self d = topic self (ident d))
   \<and> topic_name \<lparr>broker_host = h, base_topic = ''home''\<rparr> \<lparr>ident = ''42'', name = '''', json = j\<rparr>
       = ''home/elro/42''
   \<and> topic_name \<lparr>broker_host = h, base_topic = ''home''\<rparr> \<lparr>ident = i, name = ''Kitchen'', json = j\<rparr>
       = ''home/elro/Kitchen''"
  by (simp add: topic_name_def topic_def)

theorem topic_name_cases_witness:
  "name \<lparr>ident = ''7'', name = ''Hall'', json = ''{}''\<rparr> \<noteq> ''''
   \<and> topic_name \<lparr>broker_host = ''mqtt://broker'', base_topic = ''home''\<rparr>
         \<lparr>ident = ''7'', name = ''Hall'', json = ''{}''\<rparr>
       = topic \<lparr>broker_host = ''mqtt://broker'', base_topic = ''home''\<rparr> ''Hall''
   \<and> name \<lparr>ident = ''7'', name = '''', json = ''{}''\<rparr> = ''''
   \<and> topic_name \<lparr>broker_host = ''mqtt://broker'', base_topic = ''home''\<rparr>
         \<lparr>ident = ''7'', name = '''', json = ''{}''\<rparr>
       = topic \<lparr>broker_host = ''mqtt://broker'', base_topic = ''home''\<rparr> ''7''"
proof -
  let ?p = "\<lparr>broker_host = ''mqtt://broker'', base_topic = ''home''\<rparr>"
  let ?a = "\<lparr>ident = ''7'', name = ''Hall'', json = ''{}''\<rparr>"
  let ?b = "\<lparr>ident = ''7'', name = '''', json = ''{}''\<rparr>"
  have na: "name ?a \<noteq> ''''" and nb: "name ?b = ''''" by simp_all
  from topic_name_cases [of ?a ?p] na have a: "topic_name ?p ?a = topic ?p (name ?a)" by blast
  from topic_name_cases [of ?b ?p] nb have b: "topic_name ?p ?b = topic ?p (ident ?b)" by blast
  from a b show ?thesis by simp
qed

text \<open>
  C4, as stated: if the name of a device changes between two consecutive update events, the
  topic of the second publish differs from the topic of the first. It fails for a device
  whose name equals its id and is changed to the empty name: the topic falls back on the
  id, and both publishes go to \<open>home/elro/42\<close>.
\<close>

theorem rename_keeps_topic:
  "name \<lparr>ident = ''42'', name = ''42'', json = ''{}''\<rparr>
     \<noteq> name (\<lparr>ident = ''42'', name = ''42'', json = ''{}''\<rparr>\<lparr>name := ''''\<rparr>)
   \<and> run \<lparr>broker_host = ''mqtt://broker'', base_topic = ''home''\<rparr>
        [Wake (UpdateTask 0),
         HubWrite 0 (\<lparr>ident = ''42'', name = ''42'', json = ''{}''\<rparr>\<lparr>name := ''''\<rparr>),
         Wake (UpdateTask 0)]
        \<lparr>heap = (\<lambda>r. \<lparr>ident = ''42'', name = ''42'', json = ''{}''\<rparr>),
         devices = [''42'' \<mapsto> 0], session = None,
         nursery = [UpdateTask 0, AlarmTask 0], published = []\<rparr>
      = Inr \<lparr>heap = (\<lambda>r. \<lparr>ident = ''42'', name = ''42'', json = ''{}''\<rparr>)
                 (0 := \<lparr>ident = ''42'', name = '''', json = ''{}''\<rparr>),
         devices = [''42'' \<mapsto> 0], session = None,
         nursery = [UpdateTask 0, AlarmTask 0],
         published = [Publish ''home/elro/42'' ''{}'' 1 None,
                      Publish ''home/elro/42'' ''{}'' 1 None]\<rparr>"
proof -
  have e: "encode_utf8 ''{}'' = ''{}''" by code_simp
  show ?thesis
    by (simp add: handle_device_update_def publish_def topic_name_def topic_def QOS_1_def e)
qed

text \<open>
  C4, amended: the topic is computed from the current name (or id) of the device at every
  publish, never cached: if the hub changes the name of a device to \<open>n\<close> between two
  consecutive update events, the first publish goes to the topic of the old name and the
  second to the topic of the new name. The two topics are equal exactly when the last
  level (the name, or the id when the name is empty) is the same before and after; so they
  differ whenever the old and the new name are both non-empty and different.
\<close>

theorem rename_between_updates:
  assumes "UpdateTask d \<in> set (nursery w)"
  shows "(\<exists>w'. run self [Wake (UpdateTask d), HubWrite d ((heap w d)\<lparr>name := n\<rparr>),
                          Wake (UpdateTask d)] w = Inr w'
            \<and> map on_topic (drop (length (published w)) (published w')) =
                [topic_name self (heap w d), topic_name self ((heap w d)\<lparr>name := n\<rparr>)])
       \<and> ((topic_name self (heap w d) = topic_name self ((heap w d)\<lparr>name := n\<rparr>)) =
            ((if name (heap w d) = '''' then ident (heap w d) else name (heap w d)) =
             (if n = '''' then ident (heap w d) else n)))
       \<and> (name (heap w d) \<noteq> '''' \<and> n \<noteq> '''' \<and> n \<noteq> name (heap w d) \<longrightarrow>
            topic_name self (heap w d) \<noteq> topic_name self ((heap w d)\<lparr>name := n\<rparr>))"
proof -
  have "\<exists>w'. run self [Wake (UpdateTask d), HubWrite d ((heap w d)\<lparr>name := n\<rparr>),
                          Wake (UpdateTask d)] w = Inr w'
            \<and> map on_topic (drop (length (published w)) (published w')) =
                [topic_name self (heap w d), topic_name self ((heap w d)\<lparr>name := n\<rparr>)]"
    using assms by (simp add: handle_device_update_def)
  with topic_name_eq_iff [of self "heap w d" "(heap w d)\<lparr>name := n\<rparr>"] show ?thesis by auto
qed

theorem rename_between_updates_witness:
  "UpdateTask 0 \<in> set [UpdateTask 0, AlarmTask 0]
   \<and> (\<exists>w'. run \<lparr>broker_host = ''mqtt://broker'', base_topic = ''home''\<rparr>
          [Wake (UpdateTask 0),
           HubWrite 0 (\<lparr>ident = ''42'', name = ''Kitchen'', json = ''{}''\<rparr>\<lparr>name := ''Hall''\<rparr>),
           Wake (UpdateTask 0)]
          \<lparr>heap = (\<lambda>r. \<lparr>ident = ''42'', name = ''Kitchen'', json = ''{}''\<rparr>),
           devices = [''42'' \<mapsto> 0], session = None,
           nursery = [UpdateTask 0, AlarmTask 0], published = []\<rparr> = Inr w'
        \<and> map on_topic (published w') = [''home/elro/Kitchen'', ''home/elro/Hall''])
   \<and> ''Kitchen'' \<noteq> '''' \<and> ''Hall'' \<noteq> '''' \<and> ''Hall'' \<noteq> ''Kitchen''
   \<and> topic_name \<lparr>broker_host = ''mqtt://broker'', base_topic = ''home''\<rparr>
        \<lparr>ident = ''42'', name = ''Kitchen'', json = ''{}''\<rparr>
      \<noteq> topic_name \<lparr>broker_host = ''mqtt://broker'', base_topic = ''home''\<rparr>
        \<lparr>ident = ''42'', name = ''Hall'', json = ''{}''\<rparr>"
proof -
  let ?p = "\<lparr>broker_host = ''mqtt://broker'', base_topic = ''home''\<rparr>"
  let ?w = "\<lparr>heap = (\<lambda>r. \<lparr>ident = ''42'', name = ''Kitchen'', json = ''{}''\<rparr>),
           devices = [''42'' \<mapsto> 0], session = None,
           nursery = [UpdateTask 0, AlarmTask 0], published = []\<rparr>"
  have h: "UpdateTask 0 \<in> set (nursery ?w)" by simp
  have k: "name (heap ?w 0) \<noteq> '''' \<and> ''Hall'' \<noteq> '''' \<and> ''Hall'' \<noteq> name (heap ?w 0)" by simp
  note u = rename_between_updates [OF h, of ?p "''Hall''"]
  from u have "\<exists>w'. run ?p [Wake (UpdateTask 0), HubWrite 0 ((heap ?w 0)\<lparr>name := ''Hall''\<rparr>),
                          Wake (UpdateTask 0)] ?w = Inr w'
            \<and> map on_topic (drop (length (published ?w)) (published w')) =
                [topic_name ?p (heap ?w 0), topic_name ?p ((heap ?w 0)\<lparr>name := ''Hall''\<rparr>)]"
    by (rule conjunct1)
  then have a: "\<exists>w'. run ?p [Wake (UpdateTask 0),
           HubWrite 0 (\<lparr>ident = ''42'', name = ''Kitchen'', json = ''{}''\<rparr>\<lparr>name := ''Hall''\<rparr>),
           Wake (UpdateTask 0)] ?w = Inr w'
        \<and> map on_topic (published w') = [''home/elro/Kitchen'', ''home/elro/Hall'']"
    by (simp add: topic_name_def topic_def)
  from u k have "topic_name ?p (heap ?w 0) \<noteq> topic_name ?p ((heap ?w 0)\<lparr>name := ''Hall''\<rparr>)"
    by blast
  then have b: "topic_name ?p \<lparr>ident = ''42'', name = ''Kitchen'', json = ''{}''\<rparr>
      \<noteq> topic_name ?p \<lparr>ident = ''42'', name = ''Hall'', json = ''{}''\<rparr>"
    by simp
  from h a b show ?thesis by simp
qed

subsection \<open>The last will\<close>

text \<open>
  C5: the connection to the broker is opened with a last will whose topic is
  \<open>topic('status')\<close>, whose payload is \<open>offline\<close>, whose quality-of-service is at-least-once
  and whose retain flag is true: the connection fails exactly when opening with that
  configuration fails, and a run that returns holds the session of that configuration.
\<close>

theorem last_will:
  "(handle_hub_events self open_mqttclient schedule w = Inl ConnectError) =
     (\<not> open_mqttclient \<lparr>uri = broker_host self,
          will = \<lparr>will_topic = topic self ''status'', will_message = ''offline'',
                  will_qos = QOS_1, will_retain = True\<rparr>\<rparr>)
   \<and> (handle_hub_events self open_mqttclient schedule w = Inr w' \<longrightarrow>
        session w' = Some \<lparr>uri = broker_host self,
          will = \<lparr>will_topic = topic self ''status'', will_message = ''offline'',
                  will_qos = QOS_1, will_retain = True\<rparr>\<rparr>)"
proof -
  have a: "(handle_hub_events self open_mqttclient schedule w = Inl ConnectError) =
     (\<not> open_mqttclient \<lparr>uri = broker_host self,
          will = \<lparr>will_topic = topic self ''status'', will_message = ''offline'',
                  will_qos = QOS_1, will_retain = True\<rparr>\<rparr>)"
    by (simp add: handle_hub_events_def Let_def QOS_1_def run_not_connect)
  have b: "session w' = Some \<lparr>uri = broker_host self,
          will = \<lparr>will_topic = topic self ''status'', will_message = ''offline'',
                  will_qos = QOS_1, will_retain = True\<rparr>\<rparr>"
    if "handle_hub_events self open_mqttclient schedule w = Inr w'"
    using that run_session [of self schedule _ w']
    by (auto simp: handle_hub_events_def Let_def QOS_1_def split: if_splits)
  from a b show ?thesis by blast
qed

theorem last_will_witness:
  "handle_hub_events \<lparr>broker_host = ''mqtt://broker'', base_topic = ''home''\<rparr>
        (\<lambda>c. uri c = ''mqtt://broker'')
        [NewDevice ''42'', Wake (AlarmTask 0), Wake (UpdateTask 0)]
        \<lparr>heap = (\<lambda>r. \<lparr>ident = ''42'', name = ''Kitchen'', json = ''{}''\<rparr>),
         devices = [''42'' \<mapsto> 0], session = None, nursery = [], published = []\<rparr>
      = Inr \<lparr>heap = (\<lambda>r. \<lparr>ident = ''42'', name = ''Kitchen'', json = ''{}''\<rparr>),
         devices = [''42'' \<mapsto> 0],
         session = Some \<lparr>uri = ''mqtt://broker'',
                     will = \<lparr>will_topic = ''home/elro/status'', will_message = ''offline'',
                             will_qos = 1, will_retain = True\<rparr>\<rparr>,
         nursery = [UpdateTask 0, AlarmTask 0],
         published = [Publish ''home/elro/status'' ''online'' 1 (Some True),
                      Publish ''home/elro/Kitchen'' ''alarm'' 1 None,
                      Publish ''home/elro/Kitchen'' ''{}'' 1 None]\<rparr>
   \<and> Some \<lparr>uri = ''mqtt://broker'',
            will = \<lparr>will_topic = ''home/elro/status'', will_message = ''offline'',
                    will_qos = 1, will_retain = True\<rparr>\<rparr>
      = Some \<lparr>uri = broker_host \<lparr>broker_host = ''mqtt://broker'', base_topic = ''home''\<rparr>,
          will = \<lparr>will_topic = topic \<lparr>broker_host = ''mqtt://broker'', base_topic = ''home''\<rparr> ''status'',
                  will_message = ''offline'', will_qos = QOS_1, will_retain = True\<rparr>\<rparr>
   \<and> handle_hub_events \<lparr>broker_host = ''mqtt://other'', base_topic = ''home''\<rparr>
        (\<lambda>c. uri c = ''mqtt://broker'')
        [NewDevice ''42'']
        \<lparr>heap = (\<lambda>r. \<lparr>ident = ''42'', name = ''Kitchen'', json = ''{}''\<rparr>),
         devices = [''42'' \<mapsto> 0], session = None, nursery = [], published = []\<rparr>
      = Inl ConnectError"
proof -
  note h = example_run
  from last_will [of "\<lparr>broker_host = ''mqtt://broker'', base_topic = ''home''\<rparr>"
      "\<lambda>c. uri c = ''mqtt://broker''"
      "[NewDevice ''42'', Wake (AlarmTask 0), Wake (UpdateTask 0)]"] h
  have a: "session \<lparr>heap = (\<lambda>r. \<lparr>ident = ''42'', name = ''Kitchen'', json = ''{}''\<rparr>),
         devices = [''42'' \<mapsto> 0],
         session = Some \<lparr>uri = ''mqtt://broker'',
                     will = \<lparr>will_topic = ''home/elro/status'', will_message = ''offline'',
                             will_qos = 1, will_retain = True\<rparr>\<rparr>,
         nursery = [UpdateTask 0, AlarmTask 0],
         published = [Publish ''home/elro/status'' ''online'' 1 (Some True),
                      Publish ''home/elro/Kitchen'' ''alarm'' 1 None,
                      Publish ''home/elro/Kitchen'' ''{}'' 1 None]\<rparr>
      = Some \<lparr>uri = broker_host \<lparr>broker_host = ''mqtt://broker'', base_topic = ''home''\<rparr>,
          will = \<lparr>will_topic = topic \<lparr>broker_host = ''mqtt://broker'', base_topic = ''home''\<rparr> ''status'',
                  will_message = ''offline'', will_qos = QOS_1, will_retain = True\<rparr>\<rparr>"
    by blast
  from last_will [of "\<lparr>broker_host = ''mqtt://other'', base_topic = ''home''\<rparr>"
      "\<lambda>c. uri c = ''mqtt://broker''"
      "[NewDevice ''42'']"
      "\<lparr>heap = (\<lambda>r. \<lparr>ident = ''42'', name = ''Kitchen'', json = ''{}''\<rparr>),
         devices = [''42'' \<mapsto> 0], session = None, nursery = [], published = []\<rparr>"]
  have b: "handle_hub_events \<lparr>broker_host = ''mqtt://other'', base_topic = ''home''\<rparr>
        (\<lambda>c. uri c = ''mqtt://broker'')
        [NewDevice ''42'']
        \<lparr>heap = (\<lambda>r. \<lparr>ident = ''42'', name = ''Kitchen'', json = ''{}''\<rparr>),
         devices = [''42'' \<mapsto> 0], session = None, nursery = [], published = []\<rparr>
      = Inl ConnectError"
    by simp
  from h a b show ?thesis by simp
qed

subsection \<open>The topic of a suffix\<close>

text \<open>
  C6: for every suffix \<open>s\<close>, \<open>topic\<close> returns the base topic followed by \<open>/elro/\<close> and
  \<open>s\<close>; it is a total function of the publisher and the suffix, with no error and no
  effect. With the empty base topic, \<open>topic('status')\<close> is \<open>/elro/status\<close>.
\<close>

theorem topic_concat:
  "topic self s = base_topic self @ ''/elro/'' @ s
   \<and> topic \<lparr>broker_host = h, base_topic = ''''\<rparr> ''status'' = ''/elro/status''"
  by (simp add: topic_def)

subsection \<open>The discovery loop\<close>

text \<open>
  C7: for every identity that the discovery loop receives, it looks the device up in the
  registry of the hub and starts exactly two tasks for it in the nursery, the update task
  and the alarm task, and goes on to the next identity without waiting for either: the
  identities \<open>ids\<close>, registered as the device objects \<open>ds\<close>, are all consumed in a schedule
  in which no task ever wakes, and leave one pair of tasks for each of them.
\<close>

theorem discovery_spawns_pairs:
  assumes "map (devices w) ids = map Some ds"
  shows "run self (map NewDevice ids) w =
           Inr (w\<lparr>nursery := nursery w @ concat (map (\<lambda>d. [UpdateTask d, AlarmTask d]) ds)\<rparr>)"
  using assms
proof (induction ids arbitrary: w ds)
  case Nil
  then show ?case by simp
next
  case (Cons i ids)
  from Cons.prems obtain d ds' where ds: "ds = d # ds'" and d: "devices w i = Some d"
    and rest: "map (devices w) ids = map Some ds'"
    by (cases ds) auto
  let ?w1 = "w\<lparr>nursery := nursery w @ [UpdateTask d, AlarmTask d]\<rparr>"
  have "map (devices ?w1) ids = map Some ds'" using rest by simp
  from Cons.IH [OF this] step_new_device [OF d, of self] ds show ?case by simp
qed

theorem discovery_spawns_pairs_witness:
  "map (devices \<lparr>heap = (\<lambda>r. \<lparr>ident = ''42'', name = ''Kitchen'', json = ''{}''\<rparr>),
          devices = [''42'' \<mapsto> 0, ''43'' \<mapsto> 1], session = None,
          nursery = [], published = []\<rparr>) [''42'', ''43''] = map Some [0, 1]
   \<and> run \<lparr>broker_host = ''mqtt://broker'', base_topic = ''home''\<rparr>
        [NewDevice ''42'', NewDevice ''43'']
        \<lparr>heap = (\<lambda>r. \<lparr>ident = ''42'', name = ''Kitchen'', json = ''{}''\<rparr>),
         devices = [''42'' \<mapsto> 0, ''43'' \<mapsto> 1], session = None,
         nursery = [], published = []\<rparr>
      = Inr \<lparr>heap = (\<lambda>r. \<lparr>ident = ''42'', name = ''Kitchen'', json = ''{}''\<rparr>),
         devices = [''42'' \<mapsto> 0, ''43'' \<mapsto> 1], session = None,
         nursery = [UpdateTask 0, AlarmTask 0, UpdateTask 1, AlarmTask 1], published = []\<rparr>"
proof -
  let ?p = "\<lparr>broker_host = ''mqtt://broker'', base_topic = ''home''\<rparr>"
  let ?w = "\<lparr>heap = (\<lambda>r. \<lparr>ident = ''42'', name = ''Kitchen'', json = ''{}''\<rparr>),
         devices = [''42'' \<mapsto> 0, ''43'' \<mapsto> 1], session = None,
         nursery = [], published = []\<rparr>"
  have h: "map (devices ?w) [''42'', ''43''] = map Some [0, 1]" by simp
  have "run ?p (map NewDevice [''42'', ''43'']) ?w =
      Inr (?w\<lparr>nursery := nursery ?w @ concat (map (\<lambda>d. [UpdateTask d, AlarmTask d]) [0, 1])\<rparr>)"
    by (rule discovery_spawns_pairs [OF h])
  then have "run ?p [NewDevice ''42'', NewDevice ''43''] ?w =
      Inr \<lparr>heap = (\<lambda>r. \<lparr>ident = ''42'', name = ''Kitchen'', json = ''{}''\<rparr>),
         devices = [''42'' \<mapsto> 0, ''43'' \<mapsto> 1], session = None,
         nursery = [UpdateTask 0, AlarmTask 0, UpdateTask 1, AlarmTask 1], published = []\<rparr>"
    by simp
  with h show ?thesis by simp
qed

subsection \<open>Two devices\<close>

text \<open>
  C8, as stated: the topics of two distinct devices are never equal. It fails for two
  devices with different ids and the same name: both publish to \<open>home/elro/Kitchen\<close>.
\<close>

theorem same_name_same_topic:
  "ident \<lparr>ident = ''1'', name = ''Kitchen'', json = ''{}''\<rparr>
     \<noteq> ident \<lparr>ident = ''2'', name = ''Kitchen'', json = ''{}''\<rparr>
   \<and> topic_name \<lparr>broker_host = ''mqtt://broker'', base_topic = ''home''\<rparr>
        \<lparr>ident = ''1'', name = ''Kitchen'', json = ''{}''\<rparr> = ''home/elro/Kitchen''
   \<and> topic_name \<lparr>broker_host = ''mqtt://broker'', base_topic = ''home''\<rparr>
        \<lparr>ident = ''2'', name = ''Kitchen'', json = ''{}''\<rparr> = ''home/elro/Kitchen''"
  by (simp add: topic_name_def topic_def)

text \<open>
  C8, amended: when the alarm and the update condition of two distinct device objects
  \<open>a\<close> and \<open>b\<close> fire, in any order \<open>ts\<close> of the four wake-ups, exactly four calls of
  \<open>publish\<close> are made, each to the topic computed for the device of the task that woke;
  and the topics of the two devices are equal exactly when their last levels (the name, or
  the id when the name is empty) are equal, so that devices whose last levels differ never
  share a topic.
\<close>

theorem two_devices_four_publishes:
  assumes "set ts = {AlarmTask a, UpdateTask a, AlarmTask b, UpdateTask b}"
    and "distinct ts" and "a \<noteq> b" and "set ts \<subseteq> set (nursery w)"
  shows "(\<exists>w'. run self (map Wake ts) w = Inr w'
            \<and> length (published w') = length (published w) + 4
            \<and> map on_topic (drop (length (published w)) (published w')) =
                map (\<lambda>t. topic_name self (heap w (case t of UpdateTask d \<Rightarrow> d | AlarmTask d \<Rightarrow> d))) ts)
       \<and> ((topic_name self (heap w a) = topic_name self (heap w b)) =
            ((if name (heap w a) = '''' then ident (heap w a) else name (heap w a)) =
             (if name (heap w b) = '''' then ident (heap w b) else name (heap w b))))"
proof -
  have "card (set ts) = 4" using assms(1,3) by simp
  with assms(2) have len: "length ts = 4" by (simp add: distinct_card)
  let ?pub = "\<lambda>t. case t of
                UpdateTask d \<Rightarrow>
                  Publish (topic_name self (heap w d)) (encode_utf8 (json (heap w d))) QOS_1 None
              | AlarmTask d \<Rightarrow> Publish (topic_name self (heap w d)) ''alarm'' QOS_1 None"
  let ?w' = "w\<lparr>published := published w @ map ?pub ts\<rparr>"
  have r: "run self (map Wake ts) w = Inr ?w'" by (rule run_wakes [OF assms(4)])
  have l: "length (published ?w') = length (published w) + 4" using len by simp
  have "map on_topic (map ?pub ts) =
      map (\<lambda>t. topic_name self (heap w (case t of UpdateTask d \<Rightarrow> d | AlarmTask d \<Rightarrow> d))) ts"
    by (simp split: task.splits)
  then have t: "map on_topic (drop (length (published w)) (published ?w')) =
      map (\<lambda>t. topic_name self (heap w (case t of UpdateTask d \<Rightarrow> d | AlarmTask d \<Rightarrow> d))) ts"
    by simp
  from r l t have "\<exists>w'. run self (map Wake ts) w = Inr w'
            \<and> length (published w') = length (published w) + 4
            \<and> map on_topic (drop (length (published w)) (published w')) =
                map (\<lambda>t. topic_name self (heap w (case t of UpdateTask d \<Rightarrow> d | AlarmTask d \<Rightarrow> d))) ts"
    by blast
  with topic_name_eq_iff [of self "heap w a" "heap w b"] show ?thesis by blast
qed

theorem two_devices_four_publishes_witness:
  "set [AlarmTask 0, UpdateTask 1, UpdateTask 0, AlarmTask 1]
     = {AlarmTask 0, UpdateTask 0, AlarmTask 1, UpdateTask 1}
   \<and> distinct [AlarmTask 0, UpdateTask 1, UpdateTask 0, AlarmTask 1]
   \<and> (0::nat) \<noteq> 1
   \<and> set [AlarmTask 0, UpdateTask 1, UpdateTask 0, AlarmTask 1]
       \<subseteq> set [UpdateTask 0, AlarmTask 0, UpdateTask 1, AlarmTask 1]
   \<and> (\<exists>w'. run \<lparr>broker_host = ''mqtt://broker'', base_topic = ''home''\<rparr>
            (map Wake [AlarmTask 0, UpdateTask 1, UpdateTask 0, AlarmTask 1])
            \<lparr>heap = (\<lambda>r. \<lparr>ident = ''1'', name = ''Kitchen'', json = ''{}''\<rparr>)
                      (1 := \<lparr>ident = ''2'', name = '''', json = ''{}''\<rparr>),
             devices = [''1'' \<mapsto> 0, ''2'' \<mapsto> 1], session = None,
             nursery = [UpdateTask 0, AlarmTask 0, UpdateTask 1, AlarmTask 1],
             published = []\<rparr> = Inr w'
        \<and> length (published w') = 4
        \<and> map on_topic (published w') =
            [''home/elro/Kitchen'', ''home/elro/2'', ''home/elro/Kitchen'', ''home/elro/2''])"
proof -
  let ?p = "\<lparr>broker_host = ''mqtt://broker'', base_topic = ''home''\<rparr>"
  let ?ts = "[AlarmTask 0, UpdateTask 1, UpdateTask 0, AlarmTask 1]"
  let ?w = "\<lparr>heap = (\<lambda>r. \<lparr>ident = ''1'', name = ''Kitchen'', json = ''{}''\<rparr>)
                      (1 := \<lparr>ident = ''2'', name = '''', json = ''{}''\<rparr>),
             devices = [''1'' \<mapsto> 0, ''2'' \<mapsto> 1], session = None,
             nursery = [UpdateTask 0, AlarmTask 0, UpdateTask 1, AlarmTask 1],
             published = []\<rparr>"
  have h1: "set ?ts = {AlarmTask 0, UpdateTask 0, AlarmTask 1, UpdateTask 1}" by auto
  have h2: "distinct ?ts" by simp
  have h3: "(0::nat) \<noteq> 1" by simp
  have h4: "set ?ts \<subseteq> set (nursery ?w)" by simp
  from two_devices_four_publishes [OF h1 h2 h3 h4, of ?p]
  have "\<exists>w'. run ?p (map Wake ?ts) ?w = Inr w'
            \<and> length (published w') = length (published ?w) + 4
            \<and> map on_topic (drop (length (published ?w)) (published w')) =
                map (\<lambda>t. topic_name ?p (heap ?w (case t of UpdateTask d \<Rightarrow> d | AlarmTask d \<Rightarrow> d))) ?ts"
    by (rule conjunct1)
  then have "\<exists>w'. run ?p (map Wake ?ts) ?w = Inr w'
        \<and> length (published w') = 4
        \<and> map on_topic (published w') =
            [''home/elro/Kitchen'', ''home/elro/2'', ''home/elro/Kitchen'', ''home/elro/2'']"
    by (simp add: topic_name_def topic_def)
  with h1 h2 h3 h4 show ?thesis by simp
qed

subsection \<open>The update task\<close>



subsection \<open>The constructor\<close>

text \<open>
  What the constructor stores when it accepts its arguments: the host with \<open>mqtt://\<close> in
  front of it unless the host starts with it already, and the base topic that was given.
\<close>

lemma init_normalizes:
  assumes "MQTTPublisher_init host_pattern host base = Inr self"
  shows "broker_host self = (if startswith host ''mqtt://'' then host else ''mqtt://'' @ host)"
    and "startswith (broker_host self) ''mqtt://''"
    and "\<exists>b. base = Some b \<and> base_topic self = b"
  using assms
  by (auto simp: MQTTPublisher_init_def accepts_def base_topic_pattern_def startswith_def
      split: if_splits option.splits)

lemma init_examples:
  "MQTTPublisher_init (\<lambda>h. True) ''192.168.1.10'' (Some ''home'')
     = Inr \<lparr>broker_host = ''mqtt://192.168.1.10'', base_topic = ''home''\<rparr>"
  "MQTTPublisher_init (\<lambda>h. True) ''mqtt://broker'' (Some '''')
     = Inr \<lparr>broker_host = ''mqtt://broker'', base_topic = ''''\<rparr>"
  "MQTTPublisher_init (\<lambda>h. True) ''192.168.1.10'' (Some ''home topic'') = Inl ValidationError"
  by (simp_all add: MQTTPublisher_init_def accepts_def base_topic_pattern_def base_topic_char_def
      startswith_def)

text \<open>
  C10: the constructor stores the broker host with the scheme \<open>mqtt://\<close> (lemma
  \<open>init_normalizes\<close>), and its body stores the empty string for a base topic that is
  \<open>None\<close>. But the decorator checks the default \<open>None\<close> of an omitted base topic against
  the pattern of \<open>base_topic\<close>, which accepts strings only: for every host, and whatever the
  patterns of the host accept, the constructor called without a base topic raises the
  validation error and stores nothing, so the branch of the body for \<open>None\<close> is never
  reached.
\<close>

theorem init_rejects_omitted_base_topic:
  "MQTTPublisher_init host_pattern host None = Inl ValidationError
   \<and> MQTTPublisher_init (\<lambda>h. True) ''192.168.1.10'' None = Inl ValidationError"
  by (simp add: MQTTPublisher_init_def accepts_def base_topic_pattern_def)

end
